theory Spec2Isabelle
  imports Complex_Main "HOL-Library.Word" "HOL-Library.Monad_Syntax" "HOL-Library.Log_Nat"
begin

unbundle bit_operations_syntax

section \<open>The AS5600 driver over a software two-wire bus\<close>

text \<open>
  The development embeds \<^verbatim>\<open>src/AS5600_softwire.cpp\<close>, the class
  \<^verbatim>\<open>AMS_5600_SOFTWIRE\<close>. The C++ is read on the classic Arduino target (AVR):
  \<^verbatim>\<open>int\<close> has 16 bits, \<^verbatim>\<open>word\<close> is \<^verbatim>\<open>unsigned int\<close> (16 bits) and
  \<^verbatim>\<open>double\<close> is the IEEE binary32 format. A C \<^verbatim>\<open>int\<close> is a HOL \<open>int\<close>, cut to
  its width where the code converts it (\<open>word_of_int\<close>); a \<^verbatim>\<open>word\<close> is a \<open>16 word\<close>
  and a \<^verbatim>\<open>uint8_t\<close> an \<open>8 word\<close>.
\<close>

subsection \<open>Register addresses\<close>

text \<open>
  The members \<^verbatim>\<open>_addr_status\<close>, \<^verbatim>\<open>_addr_zmco\<close>, ... are declared in
  the header \<^verbatim>\<open>AS5600_softwire.h\<close>, not in the file embedded here. Their values
  are a parameter of every operation: a record with one field for each member the code
  mentions.
\<close>

record regmap =
  addr_status :: int
  addr_agc :: int
  addr_zmco :: int
  addr_zpos :: int
  addr_mpos :: int
  addr_mang :: int
  addr_conf :: int
  addr_raw_angle :: int
  addr_angle :: int
  addr_magnitude :: int
  addr_burn :: int

subsection \<open>The transport and the chip behind it\<close>

text \<open>
  \<^verbatim>\<open>SoftWire\<close> and the chip are the environment of the driver. The bus carries one
  chip at the fixed address \<^verbatim>\<open>_ams5600_Address\<close>, so the address argument of
  \<^verbatim>\<open>beginTransmission\<close> and \<^verbatim>\<open>requestFrom\<close> is left out. The chip is a file of
  byte registers with an address pointer: the first byte of a write transaction sets the
  pointer, every further byte is stored at the pointer, which then moves on; a read
  transaction delivers the bytes from the pointer onwards. \<open>present\<close> says whether the
  chip acknowledges its address; a chip that does not takes no byte and delivers none.
  \<open>trace\<close> records what happened on the bus and the pauses of the host, oldest first.
\<close>

datatype event =
    Tx "8 word list"
  | Rx nat
  | Delay nat

record bus =
  present :: bool
  regs :: "8 word \<Rightarrow> 8 word"
  pointer :: "8 word"
  txBuffer :: "8 word list"
  rxBuffer :: "8 word list"
  trace :: "event list"

fun chip_store :: "8 word \<Rightarrow> 8 word list \<Rightarrow> (8 word \<Rightarrow> 8 word) \<Rightarrow> (8 word \<Rightarrow> 8 word)" where
  "chip_store p [] r = r"
| "chip_store p (d # ds) r = chip_store (p + 1) ds (r(p := d))"

definition chip_fetch :: "8 word \<Rightarrow> nat \<Rightarrow> (8 word \<Rightarrow> 8 word) \<Rightarrow> 8 word list" where
  "chip_fetch p n r = map (\<lambda>i. r (p + of_nat i)) [0..<n]"

definition sw_beginTransmission :: "bus \<Rightarrow> bus" where
  "sw_beginTransmission s = s\<lparr>txBuffer := []\<rparr>"

definition sw_write :: "int \<Rightarrow> bus \<Rightarrow> bus" where
  "sw_write b s = s\<lparr>txBuffer := txBuffer s @ [word_of_int b]\<rparr>"

definition sw_endTransmission :: "bus \<Rightarrow> bus" where
  "sw_endTransmission s =
    (case txBuffer s of
       [] \<Rightarrow> s
     | a # ds \<Rightarrow>
        if present s
        then s\<lparr>regs := chip_store a ds (regs s),
               pointer := a + of_nat (length ds),
               txBuffer := [],
               trace := trace s @ [Tx (a # ds)]\<rparr>
        else s\<lparr>txBuffer := []\<rparr>)"

definition sw_requestFrom :: "nat \<Rightarrow> bus \<Rightarrow> bus" where
  "sw_requestFrom n s =
    (if present s
     then s\<lparr>rxBuffer := chip_fetch (pointer s) n (regs s),
            pointer := pointer s + of_nat n,
            trace := trace s @ [Rx n]\<rparr>
     else s\<lparr>rxBuffer := []\<rparr>)"

definition sw_available :: "bus \<Rightarrow> int" where
  "sw_available s = int (length (rxBuffer s))"

definition sw_read :: "bus \<Rightarrow> int \<times> bus" where
  "sw_read s =
    (case rxBuffer s of
       [] \<Rightarrow> (- 1, s)
     | b # bs \<Rightarrow> (uint b, s\<lparr>rxBuffer := bs\<rparr>))"

definition delay :: "nat \<Rightarrow> bus \<Rightarrow> bus" where
  "delay ms s = s\<lparr>trace := trace s @ [Delay ms]\<rparr>"

text \<open>\<^verbatim>\<open>highByte\<close> and \<^verbatim>\<open>lowByte\<close> of \<^verbatim>\<open>Arduino.h\<close>.\<close>

definition highByte :: "16 word \<Rightarrow> 8 word" where
  "highByte w = ucast (drop_bit 8 w)"

definition lowByte :: "16 word \<Rightarrow> 8 word" where
  "lowByte w = ucast (w AND 0xff)"

subsection \<open>Register primitives\<close>

text \<open>
  The two polling loops have an empty body: \<^verbatim>\<open>while (sw.available() == 0) ;\<close> and
  \<^verbatim>\<open>while (sw.available() < 2) ;\<close>. A loop that never ends has the value \<open>None\<close>.
  \<^verbatim>\<open>(highByte << 8) | lowByte\<close> is computed in \<^verbatim>\<open>int\<close> and returned as a
  \<^verbatim>\<open>word\<close>: the conversion keeps the low 16 bits, as \<open>word_of_int\<close> does.
\<close>

partial_function (option) wait_available_1 :: "bus \<Rightarrow> bus option" where
  "wait_available_1 s = (if sw_available s = 0 then wait_available_1 s else Some s)"

partial_function (option) wait_available_2 :: "bus \<Rightarrow> bus option" where
  "wait_available_2 s = (if sw_available s < 2 then wait_available_2 s else Some s)"

definition readOneByte :: "int \<Rightarrow> bus \<Rightarrow> (int \<times> bus) option" where
  "readOneByte in_adr s0 =
    (let s1 = sw_beginTransmission s0;
         s2 = sw_write in_adr s1;
         s3 = sw_endTransmission s2;
         s4 = sw_requestFrom 1 s3
     in do {
       s5 \<leftarrow> wait_available_1 s4;
       Some (sw_read s5)
     })"

definition readTwoBytesTogether :: "int \<Rightarrow> bus \<Rightarrow> (16 word \<times> bus) option" where
  "readTwoBytesTogether addr_in s0 =
    (let s1 = sw_beginTransmission s0;
         s2 = sw_write addr_in s1;
         s3 = sw_endTransmission s2;
         s4 = sw_requestFrom 2 s3
     in do {
       s5 \<leftarrow> wait_available_2 s4;
       let (highB, s6) = sw_read s5;
           (lowB, s7) = sw_read s6
       in Some (word_of_int (push_bit 8 highB OR lowB), s7)
     })"

definition readTwoBytesSeparately :: "int \<Rightarrow> bus \<Rightarrow> (16 word \<times> bus) option" where
  "readTwoBytesSeparately addr_in s0 =
    do {
      (highB, s1) \<leftarrow> readOneByte addr_in s0;
      (lowB, s2) \<leftarrow> readOneByte (addr_in + 1) s1;
      Some (word_of_int (push_bit 8 highB OR lowB), s2)
    }"

definition writeOneByte :: "int \<Rightarrow> int \<Rightarrow> bus \<Rightarrow> bus" where
  "writeOneByte adr_in dat_in s0 =
    (let s1 = sw_beginTransmission s0;
         s2 = sw_write adr_in s1;
         s3 = sw_write dat_in s2
     in sw_endTransmission s3)"

subsection \<open>Magnet status\<close>

definition detectMagnet :: "regmap \<Rightarrow> bus \<Rightarrow> (int \<times> bus) option" where
  "detectMagnet m s0 =
    do {
      (magStatus, s1) \<leftarrow> readOneByte (addr_status m) s0;
      Some (if magStatus AND 0x20 \<noteq> 0 then 1 else 0, s1)
    }"

definition getMagnetStrength :: "regmap \<Rightarrow> bus \<Rightarrow> (int \<times> bus) option" where
  "getMagnetStrength m s0 =
    do {
      (magStatus, s1) \<leftarrow> readOneByte (addr_status m) s0;
      Some (if magStatus AND 0x20 \<noteq> 0
            then (if magStatus AND 0x10 \<noteq> 0 then 1
                  else if magStatus AND 0x08 \<noteq> 0 then 3
                  else 2)
            else 0, s1)
    }"

subsection \<open>Output mode\<close>

definition setOutPut :: "regmap \<Rightarrow> 8 word \<Rightarrow> bus \<Rightarrow> bus option" where
  "setOutPut m mode s0 =
    (let conf_lo = addr_conf m + 1 in
     do {
       (b, s1) \<leftarrow> readOneByte conf_lo s0;
       let config_status = (word_of_int b :: 8 word);
           cleared = config_status AND 0xCF;
           chosen = (if mode = 0 then cleared OR 0x20
                     else if mode = 2 then cleared OR 0x10
                     else cleared)
       in Some (writeOneByte conf_lo (uint chosen) s1)
     })"

subsection \<open>Angles, positions and configuration\<close>

definition getRawAngle :: "regmap \<Rightarrow> bus \<Rightarrow> (16 word \<times> bus) option" where
  "getRawAngle m s = readTwoBytesTogether (addr_raw_angle m) s"

definition getScaledAngle :: "regmap \<Rightarrow> bus \<Rightarrow> (16 word \<times> bus) option" where
  "getScaledAngle m s = readTwoBytesTogether (addr_angle m) s"

definition getMagnitude :: "regmap \<Rightarrow> bus \<Rightarrow> (16 word \<times> bus) option" where
  "getMagnitude m s = readTwoBytesTogether (addr_magnitude m) s"

definition getAgc :: "regmap \<Rightarrow> bus \<Rightarrow> (int \<times> bus) option" where
  "getAgc m s = readOneByte (addr_agc m) s"

definition getMaxAngle :: "regmap \<Rightarrow> bus \<Rightarrow> (16 word \<times> bus) option" where
  "getMaxAngle m s = readTwoBytesSeparately (addr_mang m) s"

definition getStartPosition :: "regmap \<Rightarrow> bus \<Rightarrow> (16 word \<times> bus) option" where
  "getStartPosition m s = readTwoBytesSeparately (addr_zpos m) s"

definition getEndPosition :: "regmap \<Rightarrow> bus \<Rightarrow> (16 word \<times> bus) option" where
  "getEndPosition m s = readTwoBytesSeparately (addr_mpos m) s"

definition getConf :: "regmap \<Rightarrow> bus \<Rightarrow> (16 word \<times> bus) option" where
  "getConf m s = readTwoBytesSeparately (addr_conf m) s"

definition getBurnCount :: "regmap \<Rightarrow> bus \<Rightarrow> (int \<times> bus) option" where
  "getBurnCount m s = readOneByte (addr_zmco m) s"

text \<open>
  \<^verbatim>\<open>newMaxAngle == -1\<close> compares a \<^verbatim>\<open>word\<close> with an \<^verbatim>\<open>int\<close> of the same width:
  the \<^verbatim>\<open>-1\<close> is converted to \<^verbatim>\<open>unsigned int\<close>, which is \<open>- 1 :: 16 word\<close>, that is
  \<open>0xFFFF\<close>.
\<close>

definition setMaxAngle :: "regmap \<Rightarrow> 16 word \<Rightarrow> bus \<Rightarrow> (16 word \<times> bus) option" where
  "setMaxAngle m newMaxAngle s0 =
    do {
      (maxAngle, s1) \<leftarrow> (if newMaxAngle = - 1 then getRawAngle m s0
                          else Some (newMaxAngle, s0));
      let s2 = writeOneByte (addr_mang m) (uint (highByte maxAngle)) s1;
          s3 = delay 2 s2;
          s4 = writeOneByte (addr_mang m + 1) (uint (lowByte maxAngle)) s3;
          s5 = delay 2 s4
      in readTwoBytesSeparately (addr_mang m) s5
    }"

definition setStartPosition :: "regmap \<Rightarrow> 16 word \<Rightarrow> bus \<Rightarrow> (16 word \<times> bus) option" where
  "setStartPosition m startAngle s0 =
    do {
      (rawStartAngle, s1) \<leftarrow> (if startAngle = - 1 then getRawAngle m s0
                               else Some (startAngle, s0));
      let s2 = writeOneByte (addr_zpos m) (uint (highByte rawStartAngle)) s1;
          s3 = delay 2 s2;
          s4 = writeOneByte (addr_zpos m + 1) (uint (lowByte rawStartAngle)) s3;
          s5 = delay 2 s4
      in readTwoBytesSeparately (addr_zpos m) s5
    }"

definition setEndPosition :: "regmap \<Rightarrow> 16 word \<Rightarrow> bus \<Rightarrow> (16 word \<times> bus) option" where
  "setEndPosition m endAngle s0 =
    do {
      (rawEndAngle, s1) \<leftarrow> (if endAngle = - 1 then getRawAngle m s0
                             else Some (endAngle, s0));
      let s2 = writeOneByte (addr_mpos m) (uint (highByte rawEndAngle)) s1;
          s3 = delay 2 s2;
          s4 = writeOneByte (addr_mpos m + 1) (uint (lowByte rawEndAngle)) s3;
          s5 = delay 2 s4
      in readTwoBytesSeparately (addr_mpos m) s5
    }"

definition setConf :: "regmap \<Rightarrow> 16 word \<Rightarrow> bus \<Rightarrow> bus" where
  "setConf m conf s0 =
    (let s1 = writeOneByte (addr_conf m) (uint (highByte conf)) s0;
         s2 = delay 2 s1;
         s3 = writeOneByte (addr_conf m + 1) (uint (lowByte conf)) s2
     in delay 2 s3)"

subsection \<open>Floating-point arithmetic\<close>

text \<open>
  \<^verbatim>\<open>_maxAngle * 0.087 < 18\<close> is computed in \<^verbatim>\<open>double\<close>. A finite value of the
  format is the rational number it denotes. \<open>fl p\<close> rounds a rational to the nearest
  number with \<open>p\<close> significant bits, ties to the even significand, as the IEEE default
  rounding does; the exponent is unbounded, which is right for all values between
  \<open>2 powi - 126\<close> and \<open>2 ^ 127\<close>. \<open>binade x\<close> is the exponent of the power of two at
  or below a positive \<open>x\<close>.
\<close>

definition round_even :: "rat \<Rightarrow> int" where
  "round_even x =
    (let f = \<lfloor>x\<rfloor>; d = x - of_int f
     in if d < 1 / 2 then f
        else if 1 / 2 < d then f + 1
        else if even f then f else f + 1)"

definition binade :: "rat \<Rightarrow> int" where
  "binade x =
    (if 1 \<le> x then int (floorlog 2 (nat \<lfloor>x\<rfloor>)) - 1
     else - int (floorlog 2 (nat (\<lceil>1 / x\<rceil> - 1))))"

definition fl :: "nat \<Rightarrow> rat \<Rightarrow> rat" where
  "fl p x =
    (if x = 0 then 0
     else let e = binade \<bar>x\<bar> - (int p - 1)
          in sgn x * of_int (round_even (\<bar>x\<bar> / 2 powi e)) * 2 powi e)"

definition binary32 :: "rat \<Rightarrow> rat" where
  "binary32 x = fl 24 x"

subsection \<open>One-time programming\<close>

definition burnAngle :: "regmap \<Rightarrow> bus \<Rightarrow> (int \<times> bus) option" where
  "burnAngle m s0 =
    do {
      (zPosition, s1) \<leftarrow> getStartPosition m s0;
      (mPosition, s2) \<leftarrow> getEndPosition m s1;
      (maxAngle, s3) \<leftarrow> getMaxAngle m s2;
      (detected, s4) \<leftarrow> detectMagnet m s3;
      if detected = 1 then
        do {
          (burnCount, s5) \<leftarrow> getBurnCount m s4;
          if burnCount < 3 then
            (if zPosition = 0 \<and> mPosition = 0 then Some (- 3, s5)
             else Some (1, writeOneByte (addr_burn m) 0x80 s5))
          else Some (- 2, s5)
        }
      else Some (- 1, s4)
    }"

text \<open>
  In \<^verbatim>\<open>_maxAngle * 0.087 < 18\<close> the literal is rounded to the format, the
  \<^verbatim>\<open>word\<close> is converted exactly (it has 16 bits), the product is rounded, and
  \<^verbatim>\<open>18\<close> is converted exactly.
\<close>

definition burnMaxAngleAndConfig :: "regmap \<Rightarrow> bus \<Rightarrow> (int \<times> bus) option" where
  "burnMaxAngleAndConfig m s0 =
    do {
      (maxAngle, s1) \<leftarrow> getMaxAngle m s0;
      (burnCount, s2) \<leftarrow> getBurnCount m s1;
      if burnCount = 0 then
        (if binary32 (of_nat (unat maxAngle) * binary32 (87 / 1000)) < 18
         then Some (- 2, s2)
         else Some (1, writeOneByte (addr_burn m) 0x40 s2))
      else Some (- 1, s2)
    }"

section \<open>Observations on the chip and the bus\<close>

text \<open>
  The byte a register holds, the 16-bit value a register pair holds (high byte at the
  lower address), and the register writes among the events of a trace.
\<close>

definition reg8 :: "bus \<Rightarrow> int \<Rightarrow> 8 word" where
  "reg8 s a = regs s (word_of_int a)"

definition reg16 :: "bus \<Rightarrow> int \<Rightarrow> 16 word" where
  "reg16 s a = word_of_int (push_bit 8 (uint (reg8 s a)) OR uint (reg8 s (a + 1)))"

fun tx_writes :: "8 word \<Rightarrow> 8 word list \<Rightarrow> (8 word \<times> 8 word) list" where
  "tx_writes p [] = []"
| "tx_writes p (d # ds) = (p, d) # tx_writes (p + 1) ds"

fun writes_of :: "event list \<Rightarrow> (8 word \<times> 8 word) list" where
  "writes_of [] = []"
| "writes_of (Tx (a # ds) # es) = tx_writes a ds @ writes_of es"
| "writes_of (e # es) = writes_of es"

text \<open>
  What a set operation puts on the bus: the capture of the raw angle when the argument is
  the sentinel, the two byte writes with their pauses, and the read-back of the pair.
  \<open>value_or_raw_angle\<close> is the value the operation then works with.
\<close>

definition write_pair_events :: "int \<Rightarrow> 16 word \<Rightarrow> event list" where
  "write_pair_events a w =
    [Tx [word_of_int a, highByte w], Delay 2, Tx [word_of_int a + 1, lowByte w], Delay 2]"

definition read_back_events :: "int \<Rightarrow> event list" where
  "read_back_events a = [Tx [word_of_int a], Rx 1, Tx [word_of_int a + 1], Rx 1]"

definition capture_events :: "regmap \<Rightarrow> 16 word \<Rightarrow> event list" where
  "capture_events m v = (if v = - 1 then [Tx [word_of_int (addr_raw_angle m)], Rx 2] else [])"

definition value_or_raw_angle :: "regmap \<Rightarrow> 16 word \<Rightarrow> bus \<Rightarrow> 16 word" where
  "value_or_raw_angle m v s = (if v = - 1 then reg16 s (addr_raw_angle m) else v)"

text \<open>
  For the examples: the register addresses of the AS5600 data sheet, and a chip that
  answers, with given register contents and nothing on the bus so far.
\<close>

definition datasheet_map :: regmap where
  "datasheet_map =
    \<lparr>addr_status = 0x0B, addr_agc = 0x1A, addr_zmco = 0x00, addr_zpos = 0x01,
     addr_mpos = 0x03, addr_mang = 0x05, addr_conf = 0x07, addr_raw_angle = 0x0C,
     addr_angle = 0x0E, addr_magnitude = 0x1B, addr_burn = 0xFF\<rparr>"

definition idle_bus :: "(8 word \<Rightarrow> 8 word) \<Rightarrow> bus" where
  "idle_bus r =
    \<lparr>present = True, regs = r, pointer = 0, txBuffer = [], rxBuffer = [], trace = []\<rparr>"

definition blank_regs :: "8 word \<Rightarrow> 8 word" where
  "blank_regs a = 0"

section \<open>Properties\<close>

subsection \<open>The polling loops and the primitives\<close>

lemma wait_available_1_Some:
  "wait_available_1 s = Some y \<Longrightarrow> sw_available s \<noteq> 0 \<and> y = s"
  by (rule wait_available_1.raw_induct [where P = "\<lambda>s y. sw_available s \<noteq> 0 \<and> y = s"])
     (auto split: if_splits)

lemma wait_available_1_eq:
  "wait_available_1 s = (if sw_available s = 0 then None else Some s)"
proof (cases "sw_available s = 0")
  case False
  then show ?thesis by (simp add: wait_available_1.simps)
next
  case True
  then have "wait_available_1 s = None"
    using wait_available_1_Some [of s] by (cases "wait_available_1 s") auto
  with True show ?thesis by simp
qed

lemma wait_available_2_Some:
  "wait_available_2 s = Some y \<Longrightarrow> \<not> sw_available s < 2 \<and> y = s"
  by (rule wait_available_2.raw_induct [where P = "\<lambda>s y. \<not> sw_available s < 2 \<and> y = s"])
     (auto split: if_splits)

lemma wait_available_2_eq:
  "wait_available_2 s = (if sw_available s < 2 then None else Some s)"
proof (cases "sw_available s < 2")
  case False
  then show ?thesis by (simp add: wait_available_2.simps)
next
  case True
  then have "wait_available_2 s = None"
    using wait_available_2_Some [of s] by (cases "wait_available_2 s") auto
  with True show ?thesis by simp
qed

text \<open>
  What the primitives do on a chip that answers: the value they return and the state
  they leave. Reading moves the pointer and empties the buffers; the registers stay.
\<close>

lemma readOneByte_present:
  assumes "present s"
  shows "readOneByte a s =
    Some (uint (regs s (word_of_int a)),
          s\<lparr>pointer := word_of_int a + 1, txBuffer := [], rxBuffer := [],
            trace := trace s @ [Tx [word_of_int a], Rx 1]\<rparr>)"
  using assms
  by (simp add: readOneByte_def sw_beginTransmission_def sw_write_def sw_endTransmission_def
      sw_requestFrom_def wait_available_1_eq sw_available_def sw_read_def chip_fetch_def)

lemma readOneByte_absent:
  assumes "\<not> present s"
  shows "readOneByte a s = None"
  using assms
  by (simp add: readOneByte_def sw_beginTransmission_def sw_write_def sw_endTransmission_def
      sw_requestFrom_def wait_available_1_eq sw_available_def)

lemma readTwoBytesTogether_present:
  assumes "present s"
  shows "readTwoBytesTogether a s =
    Some (word_of_int (push_bit 8 (uint (regs s (word_of_int a)))
                       OR uint (regs s (word_of_int a + 1))),
          s\<lparr>pointer := word_of_int a + 2, txBuffer := [], rxBuffer := [],
            trace := trace s @ [Tx [word_of_int a], Rx 2]\<rparr>)"
  using assms
  by (simp add: readTwoBytesTogether_def sw_beginTransmission_def sw_write_def
      sw_endTransmission_def sw_requestFrom_def wait_available_2_eq sw_available_def
      sw_read_def chip_fetch_def upt_rec numeral_2_eq_2)

lemma readTwoBytesTogether_absent:
  assumes "\<not> present s"
  shows "readTwoBytesTogether a s = None"
  using assms
  by (simp add: readTwoBytesTogether_def sw_beginTransmission_def sw_write_def
      sw_endTransmission_def sw_requestFrom_def wait_available_2_eq sw_available_def)

lemma readTwoBytesSeparately_present:
  assumes "present s"
  shows "readTwoBytesSeparately a s =
    Some (word_of_int (push_bit 8 (uint (regs s (word_of_int a)))
                       OR uint (regs s (word_of_int a + 1))),
          s\<lparr>pointer := word_of_int a + 2, txBuffer := [], rxBuffer := [],
            trace := trace s @ [Tx [word_of_int a], Rx 1, Tx [word_of_int a + 1], Rx 1]\<rparr>)"
  using assms
  by (simp add: readTwoBytesSeparately_def readOneByte_present)

lemma readTwoBytesSeparately_absent:
  assumes "\<not> present s"
  shows "readTwoBytesSeparately a s = None"
  using assms by (simp add: readTwoBytesSeparately_def readOneByte_absent)

lemma writeOneByte_present:
  assumes "present s"
  shows "writeOneByte a d s =
    s\<lparr>regs := (regs s)(word_of_int a := word_of_int d),
      pointer := word_of_int a + 1, txBuffer := [],
      trace := trace s @ [Tx [word_of_int a, word_of_int d]]\<rparr>"
  using assms
  by (simp add: writeOneByte_def sw_beginTransmission_def sw_write_def sw_endTransmission_def)

subsection \<open>Rounding\<close>

text \<open>
  Rounding to \<open>p\<close> bits moves a positive value by at most its \<open>2 ^ p\<close>-th part.
  The two values next to the threshold, \<open>206\<close> and \<open>207\<close>, give the products
  \<open>17.922\<close> and \<open>18.009\<close>, much further from \<open>18\<close> than two roundings to 24
  bits or more can reach; so the comparison in \<^verbatim>\<open>double\<close> decides as the exact
  one does.
\<close>

lemma round_even_err: "\<bar>of_int (round_even x) - x\<bar> \<le> 1 / 2"
proof -
  have lo: "of_int \<lfloor>x\<rfloor> \<le> x" and hi: "x < of_int \<lfloor>x\<rfloor> + 1"
    by linarith+
  show ?thesis
    unfolding round_even_def Let_def using lo hi by (auto simp: abs_le_iff)
qed

lemma binade_le:
  assumes "0 < x"
  shows "2 powi binade x \<le> x"
proof (cases "1 \<le> x")
  case True
  then have pos: "0 < nat \<lfloor>x\<rfloor>" by simp
  have "(2::nat) ^ (floorlog 2 (nat \<lfloor>x\<rfloor>) - 1) \<le> nat \<lfloor>x\<rfloor>"
    using floorlog_bounds [OF pos, of 2] by simp
  then have "rat_of_nat (2 ^ (floorlog 2 (nat \<lfloor>x\<rfloor>) - 1)) \<le> rat_of_nat (nat \<lfloor>x\<rfloor>)"
    by (simp only: of_nat_le_iff)
  also have "\<dots> = of_int \<lfloor>x\<rfloor>" using True by simp
  also have "\<dots> \<le> x" by simp
  finally have le: "(2::rat) ^ (floorlog 2 (nat \<lfloor>x\<rfloor>) - 1) \<le> x" by simp
  have "0 < floorlog 2 (nat \<lfloor>x\<rfloor>)"
    using pos by (simp add: floorlog_def)
  then have "binade x = int (floorlog 2 (nat \<lfloor>x\<rfloor>) - 1)"
    using True by (simp add: binade_def)
  then show ?thesis using le by (simp add: power_int_def)
next
  case False
  define k where "k = floorlog 2 (nat (\<lceil>1 / x\<rceil> - 1))"
  have b: "binade x = - int k" using False by (simp add: binade_def k_def)
  have "1 / x \<le> 2 ^ k"
  proof (cases "0 < nat (\<lceil>1 / x\<rceil> - 1)")
    case True
    then have "nat (\<lceil>1 / x\<rceil> - 1) < 2 ^ k"
      unfolding k_def using floorlog_bounds [OF True, of 2] by simp
    then have "\<lceil>1 / x\<rceil> - 1 < 2 ^ k" using True by (simp add: nat_less_iff)
    then have "\<lceil>1 / x\<rceil> \<le> 2 ^ k" by simp
    then show ?thesis by (simp add: ceiling_le_iff)
  next
    case False
    then have "\<lceil>1 / x\<rceil> \<le> 1" by simp
    then have "1 / x \<le> 1" by (simp add: ceiling_le_iff)
    also have "(1::rat) \<le> 2 ^ k" by simp
    finally show ?thesis .
  qed
  then have "1 \<le> 2 ^ k * x" using assms by (simp add: field_simps)
  then have "1 / 2 ^ k \<le> x" by (simp add: field_simps)
  then show ?thesis using b by (simp add: power_int_minus field_simps)
qed

lemma fl_error:
  assumes "0 < x"
  shows "\<bar>fl p x - x\<bar> \<le> x / 2 ^ p"
proof -
  define e where "e = binade x - (int p - 1)"
  define u :: rat where "u = 2 powi e"
  have u_pos: "0 < u" by (simp add: u_def)
  have fl_eq: "fl p x = of_int (round_even (x / u)) * u"
    using assms by (simp add: fl_def e_def u_def Let_def)
  have "\<bar>of_int (round_even (x / u)) - x / u\<bar> \<le> 1 / 2" by (rule round_even_err)
  then have "\<bar>of_int (round_even (x / u)) - x / u\<bar> * u \<le> 1 / 2 * u"
    using u_pos by (simp only: mult_le_cancel_right) simp
  moreover have "\<bar>of_int (round_even (x / u)) - x / u\<bar> * u = \<bar>fl p x - x\<bar>"
  proof -
    have "\<bar>of_int (round_even (x / u)) - x / u\<bar> * u = \<bar>(of_int (round_even (x / u)) - x / u) * u\<bar>"
      using u_pos by (simp add: abs_mult)
    also have "(of_int (round_even (x / u)) - x / u) * u = fl p x - x"
      using u_pos by (simp add: fl_eq field_simps)
    finally show ?thesis .
  qed
  ultimately have err: "\<bar>fl p x - x\<bar> \<le> u / 2" by simp
  have "u * 2 ^ p = 2 powi binade x * 2"
  proof -
    have "u * 2 ^ p = (2::rat) powi e * 2 powi (int p)" by (simp add: u_def)
    also have "\<dots> = 2 powi (e + int p)" by (simp add: power_int_add)
    also have "e + int p = binade x + 1" by (simp add: e_def)
    also have "(2::rat) powi (binade x + 1) = 2 powi binade x * 2" by (simp add: power_int_add)
    finally show ?thesis .
  qed
  then have "u / 2 = 2 powi binade x / 2 ^ p" by (simp add: field_simps)
  also have "\<dots> \<le> x / 2 ^ p" using binade_le [OF assms] by (simp add: divide_right_mono)
  finally have "u / 2 \<le> x / 2 ^ p" .
  with err show ?thesis by (rule order_trans)
qed


lemma fl_error_24:
  assumes "0 < x" and "24 \<le> p"
  shows "fl p x \<le> x + x / 16777216" and "x - x / 16777216 \<le> fl p x"
proof -
  have e: "\<bar>fl p x - x\<bar> \<le> x / 2 ^ p" using assms(1) by (rule fl_error)
  have "(2::rat) ^ 24 \<le> 2 ^ p" using assms(2) by (intro power_increasing) simp_all
  then have "x / 2 ^ p \<le> x / 2 ^ 24"
    using assms(1) by (intro divide_left_mono) simp_all
  with e have "\<bar>fl p x - x\<bar> \<le> x / 2 ^ 24" by (rule order_trans)
  then have "\<bar>fl p x - x\<bar> \<le> x / 16777216" by simp
  then show "fl p x \<le> x + x / 16777216" and "x - x / 16777216 \<le> fl p x"
    by linarith+
qed

lemma product_below_18_precision:
  assumes "24 \<le> p"
  shows "fl p (of_nat n * fl p (87 / 1000)) < 18 \<longleftrightarrow> n \<le> 206"
proof (cases "n = 0")
  case True
  then show ?thesis by (simp add: fl_def)
next
  case False
  define c where "c = fl p (87 / 1000)"
  have c: "c \<le> 87 / 1000 + 87 / 1000 / 16777216" "87 / 1000 - 87 / 1000 / 16777216 \<le> c"
    unfolding c_def using fl_error_24 [of "87 / 1000" p] assms by simp_all
  then have c_pos: "0 < c" by simp
  define x where "x = of_nat n * c"
  have x_pos: "0 < x" using False c_pos by (simp add: x_def)
  have err: "fl p x \<le> x + x / 16777216" "x - x / 16777216 \<le> fl p x"
    using fl_error_24 [OF x_pos assms] by simp_all
  show ?thesis
  proof (cases "n \<le> 206")
    case True
    then have "rat_of_nat n \<le> 206" by (metis of_nat_le_iff of_nat_numeral)
    then have "x \<le> 206 * c" using c_pos by (simp add: x_def)
    with c(1) err(1) have "fl p x < 18" by linarith
    with True show ?thesis by (simp add: x_def c_def)
  next
    case False
    then have "207 \<le> n" by simp
    then have "207 \<le> rat_of_nat n" by (metis of_nat_le_iff of_nat_numeral)
    then have "207 * c \<le> x" using c_pos by (simp add: x_def)
    then have "207 * c * (16777215 / 16777216) \<le> x * (16777215 / 16777216)"
      by (simp only: mult_le_cancel_right) simp
    moreover have "87 / 1000 * (16777215 / 16777216) \<le> c" using c(2) by simp
    moreover have "x * (16777215 / 16777216) \<le> fl p x" using err(2) by simp
    ultimately have "18 \<le> fl p x" by linarith
    with False show ?thesis by (simp add: x_def c_def not_less)
  qed
qed

text \<open>
  The literal \<^verbatim>\<open>0.087\<close> in binary32 is \<open>11676942 / 2 ^ 27\<close>, the value with the
  bit pattern \<open>0x3DB22D0E\<close>.
\<close>

lemma literal_0087: "binary32 (87 / 1000) = 11676942 / 2 ^ 27"
  by code_simp

lemma product_below_18_exact:
  "binary32 (of_nat n * binary32 (87 / 1000)) < 18 \<longleftrightarrow> rat_of_nat n * (87 / 1000) < 18"
proof -
  have "rat_of_nat n * (87 / 1000) < 18 \<longleftrightarrow> rat_of_nat (n * 87) < rat_of_nat 18000"
    by (simp add: field_simps)
  also have "\<dots> \<longleftrightarrow> n * 87 < 18000" by (simp only: of_nat_less_iff)
  also have "\<dots> \<longleftrightarrow> n \<le> 206" by arith
  finally show ?thesis
    using product_below_18_precision [of 24 n] by (simp add: binary32_def)
qed

text \<open>
  The precision matters little: where \<^verbatim>\<open>double\<close> is the binary64 format, with 53
  significant bits, the comparison decides the same.
\<close>

lemma product_below_18_binary64:
  "fl 53 (of_nat n * fl 53 (87 / 1000)) < 18 \<longleftrightarrow> rat_of_nat n * (87 / 1000) < 18"
proof -
  have "rat_of_nat n * (87 / 1000) < 18 \<longleftrightarrow> rat_of_nat (n * 87) < rat_of_nat 18000"
    by (simp add: field_simps)
  also have "\<dots> \<longleftrightarrow> n * 87 < 18000" by (simp only: of_nat_less_iff)
  also have "\<dots> \<longleftrightarrow> n \<le> 206" by arith
  finally show ?thesis
    using product_below_18_precision [of 53 n] by simp
qed

subsection \<open>Magnet status\<close>

lemma uint_and_bit: "(uint (w :: 8 word) AND 2 ^ n \<noteq> 0) = bit w n"
proof -
  have "bit w n = bit (uint w) n" by (auto simp: bit_uint_iff dest: bit_imp_le_length)
  also have "\<dots> = (uint w AND push_bit n 1 \<noteq> 0)" by (rule bit_iff_and_push_bit_not_eq_0)
  finally show ?thesis by simp
qed

lemma status_masks:
  "(uint (w :: 8 word) AND 0x20 \<noteq> 0) = bit w 5"
  "(uint (w :: 8 word) AND 0x10 \<noteq> 0) = bit w 4"
  "(uint (w :: 8 word) AND 0x08 \<noteq> 0) = bit w 3"
  using uint_and_bit [of w 5] uint_and_bit [of w 4] uint_and_bit [of w 3] by simp_all

text \<open>
  Claim C4. On a chip that answers, for every status byte: \<^verbatim>\<open>getMagnetStrength\<close>
  returns 0 (none) when bit 5 (MD) is unset; with MD set it returns 1 (too weak) when
  bit 4 (ML) is set, 3 (too strong) when bit 3 (MH) is set and ML is not, and 2 (good)
  when neither is set. \<^verbatim>\<open>detectMagnet\<close> returns 1 when MD is set and 0 otherwise, so
  the strength is 0 exactly when \<^verbatim>\<open>detectMagnet\<close> returns 0.
\<close>

theorem getMagnetStrength_truth_table:
  assumes "present s"
  shows "map_option fst (getMagnetStrength m s) =
           Some (if \<not> bit (reg8 s (addr_status m)) 5 then 0
                 else if bit (reg8 s (addr_status m)) 4 then 1
                 else if bit (reg8 s (addr_status m)) 3 then 3
                 else 2)
       \<and> map_option fst (detectMagnet m s) =
           Some (if bit (reg8 s (addr_status m)) 5 then 1 else 0)
       \<and> (map_option fst (getMagnetStrength m s) = Some 0
            \<longleftrightarrow> map_option fst (detectMagnet m s) = Some 0)"
  using assms
  by (simp add: getMagnetStrength_def detectMagnet_def readOneByte_present reg8_def status_masks)

text \<open>The status byte \<open>0x30\<close> (MD and ML set): the magnet is detected and too weak.\<close>

theorem getMagnetStrength_truth_table_witness:
  "present (idle_bus (blank_regs(0x0B := 0x30)))
   \<and> map_option fst (getMagnetStrength datasheet_map (idle_bus (blank_regs(0x0B := 0x30)))) = Some 1
   \<and> map_option fst (detectMagnet datasheet_map (idle_bus (blank_regs(0x0B := 0x30)))) = Some 1"
  using getMagnetStrength_truth_table [of "idle_bus (blank_regs(0x0B := 0x30))" datasheet_map]
  by (simp add: idle_bus_def blank_regs_def datasheet_map_def reg8_def)

subsection \<open>Two-byte reads\<close>

lemma writes_of_append: "writes_of (xs @ ys) = writes_of xs @ writes_of ys"
  by (induction xs rule: writes_of.induct) simp_all

lemma highByte_compose:
  "highByte (word_of_int (push_bit 8 (uint (h :: 8 word)) OR uint (l :: 8 word))) = h"
  unfolding highByte_def
  by (rule bit_word_eqI) (auto simp: bit_simps dest: bit_imp_le_length)

lemma lowByte_take_bit: "lowByte w = ucast (take_bit 8 w)"
proof -
  have "(0xff :: 16 word) = mask 8" by (simp add: mask_eq_exp_minus_1)
  then show ?thesis by (simp add: lowByte_def take_bit_eq_mask)
qed

lemma lowByte_compose:
  "lowByte (word_of_int (push_bit 8 (uint (h :: 8 word)) OR uint (l :: 8 word))) = l"
  unfolding lowByte_take_bit
  by (rule bit_word_eqI) (auto simp: bit_simps dest: bit_imp_le_length)

text \<open>
  Claim C6. On a chip that answers, \<^verbatim>\<open>readTwoBytesTogether\<close> returns
  \<^verbatim>\<open>(highByte << 8) | lowByte\<close>, where the byte delivered first, the register at the
  given address, is the high byte and the register after it the low byte.
  \<^verbatim>\<open>getRawAngle\<close> is this read at the raw-angle address: for every content of the
  raw-angle pair it returns the value the pair holds, obtained by one request for two
  bytes. With the bytes \<open>0x0A\<close> and \<open>0x3C\<close> in the pair it returns \<open>0x0A3C\<close>.
\<close>

theorem readTwoBytesTogether_composes:
  assumes "present s"
  shows "map_option fst (readTwoBytesTogether a s) =
           Some (word_of_int (push_bit 8 (uint (reg8 s a)) OR uint (reg8 s (a + 1))))
       \<and> map_option (highByte \<circ> fst) (readTwoBytesTogether a s) = Some (reg8 s a)
       \<and> map_option (lowByte \<circ> fst) (readTwoBytesTogether a s) = Some (reg8 s (a + 1))
       \<and> map_option fst (getRawAngle m s) = Some (reg16 s (addr_raw_angle m))
       \<and> map_option (trace \<circ> snd) (getRawAngle m s) =
           Some (trace s @ [Tx [word_of_int (addr_raw_angle m)], Rx 2])
       \<and> (reg8 s (addr_raw_angle m) = 0x0A \<and> reg8 s (addr_raw_angle m + 1) = 0x3C
            \<longrightarrow> map_option fst (getRawAngle m s) = Some 0x0A3C)"
  using assms
  by (simp add: getRawAngle_def readTwoBytesTogether_present reg8_def reg16_def
      highByte_compose lowByte_compose)

text \<open>The scenario on the data-sheet addresses; \<open>0x0A3C\<close> is 2620.\<close>

theorem readTwoBytesTogether_composes_witness:
  "present (idle_bus (blank_regs(0x0C := 0x0A, 0x0D := 0x3C)))
   \<and> map_option fst (getRawAngle datasheet_map (idle_bus (blank_regs(0x0C := 0x0A, 0x0D := 0x3C))))
       = Some 2620
   \<and> map_option (trace \<circ> snd)
         (getRawAngle datasheet_map (idle_bus (blank_regs(0x0C := 0x0A, 0x0D := 0x3C))))
       = Some [Tx [0x0C], Rx 2]"
  using readTwoBytesTogether_composes
    [where s = "idle_bus (blank_regs(0x0C := 0x0A, 0x0D := 0x3C))" and a = "0x0C"
       and m = datasheet_map]
  by (simp add: idle_bus_def blank_regs_def datasheet_map_def reg8_def)

text \<open>
  Claim C7. The registers of the chip change only by what is written to them. When a
  register pair holds the same two bytes in the states \<open>s\<close> and \<open>t\<close> of a chip that
  answers, whatever else differs, the atomic read in \<open>s\<close> and the separate reads in
  \<open>t\<close> both return, and return the same value.
\<close>

theorem two_byte_reads_agree:
  assumes "present s" and "present t"
    and "reg8 t a = reg8 s a" and "reg8 t (a + 1) = reg8 s (a + 1)"
  shows "\<exists>v s' t'. readTwoBytesTogether a s = Some (v, s')
                 \<and> readTwoBytesSeparately a t = Some (v, t')"
  using assms
  by (simp add: readTwoBytesTogether_present readTwoBytesSeparately_present reg8_def)

text \<open>Two chips that agree on the raw-angle pair and on no other register.\<close>

theorem two_byte_reads_agree_witness:
  "present (idle_bus (blank_regs(0x0C := 0x0A, 0x0D := 0x3C)))
   \<and> present (idle_bus (blank_regs(0x00 := 7, 0x0C := 0x0A, 0x0D := 0x3C)))
   \<and> reg8 (idle_bus (blank_regs(0x00 := 7, 0x0C := 0x0A, 0x0D := 0x3C))) 0x0C
       = reg8 (idle_bus (blank_regs(0x0C := 0x0A, 0x0D := 0x3C))) 0x0C
   \<and> reg8 (idle_bus (blank_regs(0x00 := 7, 0x0C := 0x0A, 0x0D := 0x3C))) (0x0C + 1)
       = reg8 (idle_bus (blank_regs(0x0C := 0x0A, 0x0D := 0x3C))) (0x0C + 1)
   \<and> (\<exists>v s' t'.
         readTwoBytesTogether 0x0C (idle_bus (blank_regs(0x0C := 0x0A, 0x0D := 0x3C))) = Some (v, s')
       \<and> readTwoBytesSeparately 0x0C (idle_bus (blank_regs(0x00 := 7, 0x0C := 0x0A, 0x0D := 0x3C))) = Some (v, t'))"
proof -
  have p: "present (idle_bus (blank_regs(0x0C := 0x0A, 0x0D := 0x3C)))"
    and q: "present (idle_bus (blank_regs(0x00 := 7, 0x0C := 0x0A, 0x0D := 0x3C)))"
    by (simp_all add: idle_bus_def blank_regs_def)
  have h: "reg8 (idle_bus (blank_regs(0x00 := 7, 0x0C := 0x0A, 0x0D := 0x3C))) 0x0C
            = reg8 (idle_bus (blank_regs(0x0C := 0x0A, 0x0D := 0x3C))) 0x0C"
    and l: "reg8 (idle_bus (blank_regs(0x00 := 7, 0x0C := 0x0A, 0x0D := 0x3C))) (0x0C + 1)
            = reg8 (idle_bus (blank_regs(0x0C := 0x0A, 0x0D := 0x3C))) (0x0C + 1)"
    by (simp_all add: idle_bus_def blank_regs_def reg8_def)
  show ?thesis
    using p q h l two_byte_reads_agree [OF p q h l] by blast
qed

subsection \<open>One-time programming\<close>

text \<open>
  Claim C1. On a chip that answers, \<^verbatim>\<open>burnAngle\<close> returns \<open>-1\<close> (no magnet) when
  bit 5 of the status register is unset, whatever the burn count and the positions;
  otherwise \<open>-2\<close> (burn limit exceeded) when the burn count is at least 3; otherwise
  \<open>-3\<close> (nothing to burn) when the start and the end position both read 0; otherwise
  it returns \<open>1\<close> and writes \<open>0x80\<close> to the burn register. In the three failing cases
  it writes to no register.
\<close>

theorem burnAngle_guards:
  assumes "present s"
  shows "\<exists>s'. burnAngle m s =
           Some (if \<not> bit (reg8 s (addr_status m)) 5 then - 1
                 else if 3 \<le> uint (reg8 s (addr_zmco m)) then - 2
                 else if reg16 s (addr_zpos m) = 0 \<and> reg16 s (addr_mpos m) = 0 then - 3
                 else 1, s')
         \<and> writes_of (trace s') = writes_of (trace s) @
             (if bit (reg8 s (addr_status m)) 5 \<and> uint (reg8 s (addr_zmco m)) < 3
                 \<and> \<not> (reg16 s (addr_zpos m) = 0 \<and> reg16 s (addr_mpos m) = 0)
              then [(word_of_int (addr_burn m), 0x80)] else [])"
  using assms
  by (simp add: burnAngle_def getStartPosition_def getEndPosition_def getMaxAngle_def
      detectMagnet_def getBurnCount_def readTwoBytesSeparately_present readOneByte_present
      writeOneByte_present reg8_def reg16_def status_masks writes_of_append)

text \<open>One chip for each of the four outcomes.\<close>

theorem burnAngle_guards_witness:
  "present (idle_bus (blank_regs(0x0B := 0x20, 0x00 := 2, 0x02 := 0x10)))
   \<and> (\<exists>s'. burnAngle datasheet_map (idle_bus (blank_regs(0x0B := 0x20, 0x00 := 2, 0x02 := 0x10)))
             = Some (1, s')
          \<and> writes_of (trace s') = [(0xFF, 0x80)])
   \<and> present (idle_bus (blank_regs(0x00 := 3)))
   \<and> (\<exists>s'. burnAngle datasheet_map (idle_bus (blank_regs(0x00 := 3))) = Some (- 1, s')
          \<and> writes_of (trace s') = [])
   \<and> present (idle_bus (blank_regs(0x0B := 0x20, 0x00 := 3, 0x02 := 0x10)))
   \<and> (\<exists>s'. burnAngle datasheet_map (idle_bus (blank_regs(0x0B := 0x20, 0x00 := 3, 0x02 := 0x10)))
             = Some (- 2, s')
          \<and> writes_of (trace s') = [])
   \<and> present (idle_bus (blank_regs(0x0B := 0x20)))
   \<and> (\<exists>s'. burnAngle datasheet_map (idle_bus (blank_regs(0x0B := 0x20))) = Some (- 3, s')
          \<and> writes_of (trace s') = [])"
proof -
  have p: "present (idle_bus r)" for r by (simp add: idle_bus_def blank_regs_def)
  show ?thesis
    using burnAngle_guards [OF p, of datasheet_map "blank_regs(0x0B := 0x20, 0x00 := 2, 0x02 := 0x10)"]
      burnAngle_guards [OF p, of datasheet_map "blank_regs(0x00 := 3)"]
      burnAngle_guards [OF p, of datasheet_map "blank_regs(0x0B := 0x20, 0x00 := 3, 0x02 := 0x10)"]
      burnAngle_guards [OF p, of datasheet_map "blank_regs(0x0B := 0x20)"]
    by (simp add: idle_bus_def blank_regs_def reg8_def reg16_def datasheet_map_def)
qed

lemma word_product_below_18:
  "binary32 (of_nat (unat (w :: 16 word)) * binary32 (87 / 1000)) < 18
    \<longleftrightarrow> rat_of_nat (unat w) * (87 / 1000) < 18"
  by (rule product_below_18_exact)

lemma burnMaxAngleAndConfig_present:
  assumes "present s"
  shows "\<exists>s'. burnMaxAngleAndConfig m s =
           Some (if reg8 s (addr_zmco m) \<noteq> 0 then - 1
                 else if rat_of_nat (unat (reg16 s (addr_mang m))) * (87 / 1000) < 18 then - 2
                 else 1, s')
         \<and> trace s' = trace s @
             [Tx [word_of_int (addr_mang m)], Rx 1, Tx [word_of_int (addr_mang m) + 1], Rx 1,
              Tx [word_of_int (addr_zmco m)], Rx 1] @
             (if reg8 s (addr_zmco m) = 0
                 \<and> 18 \<le> rat_of_nat (unat (reg16 s (addr_mang m))) * (87 / 1000)
              then [Tx [word_of_int (addr_burn m), 0x40]] else [])"
  unfolding burnMaxAngleAndConfig_def word_product_below_18
  using assms
  by (simp add: getMaxAngle_def getBurnCount_def readTwoBytesSeparately_present
      readOneByte_present writeOneByte_present reg8_def reg16_def not_less uint_0_iff)

text \<open>
  Claim C2. On a chip that answers and whose burn count is 0, with \<open>X\<close> the value of
  the max-angle pair: when \<open>X * 0.087 < 18\<close>, \<^verbatim>\<open>burnMaxAngleAndConfig\<close> returns \<open>-2\<close>
  (max angle too small) and writes to no register; when \<open>18 \<le> X * 0.087\<close> it returns
  \<open>1\<close> and writes \<open>0x40\<close> to the burn register. The products are those of exact
  arithmetic; the code's floating-point comparison decides the same.
\<close>

theorem burnMaxAngleAndConfig_threshold:
  assumes "present s" and "reg8 s (addr_zmco m) = 0"
  shows "\<exists>s'. burnMaxAngleAndConfig m s =
           Some (if rat_of_nat (unat (reg16 s (addr_mang m))) * (87 / 1000) < 18 then - 2 else 1, s')
         \<and> writes_of (trace s') = writes_of (trace s) @
             (if rat_of_nat (unat (reg16 s (addr_mang m))) * (87 / 1000) < 18 then []
              else [(word_of_int (addr_burn m), 0x40)])"
proof -
  obtain s' where "burnMaxAngleAndConfig m s =
           Some (if reg8 s (addr_zmco m) \<noteq> 0 then - 1
                 else if rat_of_nat (unat (reg16 s (addr_mang m))) * (87 / 1000) < 18 then - 2
                 else 1, s')"
     and "trace s' = trace s @
             [Tx [word_of_int (addr_mang m)], Rx 1, Tx [word_of_int (addr_mang m) + 1], Rx 1,
              Tx [word_of_int (addr_zmco m)], Rx 1] @
             (if reg8 s (addr_zmco m) = 0
                 \<and> 18 \<le> rat_of_nat (unat (reg16 s (addr_mang m))) * (87 / 1000)
              then [Tx [word_of_int (addr_burn m), 0x40]] else [])"
    using burnMaxAngleAndConfig_present [OF assms(1), of m] by blast
  then show ?thesis using assms(2) by (auto simp: writes_of_append not_less)
qed

text \<open>The boundary: 207 is the least value that passes, 206 the greatest that fails.\<close>

theorem burnMaxAngleAndConfig_threshold_witness:
  "present (idle_bus (blank_regs(0x06 := 0xCF)))
   \<and> reg8 (idle_bus (blank_regs(0x06 := 0xCF))) (addr_zmco datasheet_map) = 0
   \<and> (\<exists>s'. burnMaxAngleAndConfig datasheet_map (idle_bus (blank_regs(0x06 := 0xCF))) = Some (1, s')
          \<and> writes_of (trace s') = [(0xFF, 0x40)])
   \<and> present (idle_bus (blank_regs(0x06 := 0xCE)))
   \<and> reg8 (idle_bus (blank_regs(0x06 := 0xCE))) (addr_zmco datasheet_map) = 0
   \<and> (\<exists>s'. burnMaxAngleAndConfig datasheet_map (idle_bus (blank_regs(0x06 := 0xCE))) = Some (- 2, s')
          \<and> writes_of (trace s') = [])"
proof -
  have p: "present (idle_bus r)" for r by (simp add: idle_bus_def blank_regs_def)
  have z: "reg8 (idle_bus (blank_regs(0x06 := b))) (addr_zmco datasheet_map) = 0" for b
    by (simp add: idle_bus_def blank_regs_def reg8_def datasheet_map_def)
  have t: "trace (idle_bus r) = []" for r by (simp add: idle_bus_def blank_regs_def)
  have hi: "reg16 (idle_bus (blank_regs(0x06 := 0xCF))) (addr_mang datasheet_map) = 207"
    and lo: "reg16 (idle_bus (blank_regs(0x06 := 0xCE))) (addr_mang datasheet_map) = 206"
    by (simp_all add: idle_bus_def blank_regs_def reg8_def reg16_def datasheet_map_def)
  have b: "addr_burn datasheet_map = 0xFF" by (simp add: datasheet_map_def)
  show ?thesis
    using burnMaxAngleAndConfig_threshold [OF p z, of "0xCF"]
      burnMaxAngleAndConfig_threshold [OF p z, of "0xCE"]
    by (simp add: p z t hi lo b)
qed

text \<open>
  Claim C3. On a chip that answers and whose burn count is not 0,
  \<^verbatim>\<open>burnMaxAngleAndConfig\<close> returns \<open>-1\<close> (burn limit exceeded) whatever the max angle
  is, writes to no register, and leaves the registers as they were.
\<close>

theorem burnMaxAngleAndConfig_limit:
  assumes "present s" and "reg8 s (addr_zmco m) \<noteq> 0"
  shows "\<exists>s'. burnMaxAngleAndConfig m s = Some (- 1, s')
            \<and> writes_of (trace s') = writes_of (trace s)
            \<and> regs s' = regs s"
  unfolding burnMaxAngleAndConfig_def
  using assms
  by (simp add: getMaxAngle_def getBurnCount_def readTwoBytesSeparately_present
      readOneByte_present reg8_def uint_0_iff writes_of_append)

text \<open>Burn count 1 with the largest 12-bit max angle.\<close>

theorem burnMaxAngleAndConfig_limit_witness:
  "present (idle_bus (blank_regs(0x00 := 1, 0x05 := 0x0F, 0x06 := 0xFF)))
   \<and> reg8 (idle_bus (blank_regs(0x00 := 1, 0x05 := 0x0F, 0x06 := 0xFF))) (addr_zmco datasheet_map) \<noteq> 0
   \<and> (\<exists>s'. burnMaxAngleAndConfig datasheet_map
               (idle_bus (blank_regs(0x00 := 1, 0x05 := 0x0F, 0x06 := 0xFF))) = Some (- 1, s')
          \<and> writes_of (trace s') = []
          \<and> regs s' = blank_regs(0x00 := 1, 0x05 := 0x0F, 0x06 := 0xFF))"
proof -
  have p: "present (idle_bus r)" for r by (simp add: idle_bus_def blank_regs_def)
  have z: "reg8 (idle_bus (blank_regs(0x00 := 1, 0x05 := 0x0F, 0x06 := 0xFF))) (addr_zmco datasheet_map) \<noteq> 0"
    by (simp add: idle_bus_def blank_regs_def reg8_def datasheet_map_def)
  show ?thesis
    using burnMaxAngleAndConfig_limit [OF p z] p z
    by (simp add: idle_bus_def blank_regs_def)
qed

text \<open>
  Claim C10. \<^verbatim>\<open>burnMaxAngleAndConfig\<close> does not look at the magnet: on a chip that
  answers, with burn count 0, a max angle that passes the threshold and no magnet
  detected (\<^verbatim>\<open>detectMagnet\<close> returns 0), it returns \<open>1\<close>, and what it does on the bus
  is to read the max-angle pair and the burn count and to write \<open>0x40\<close> to the burn
  register; it never addresses the status register.
\<close>

theorem burnMaxAngleAndConfig_ignores_magnet:
  assumes "present s" and "reg8 s (addr_zmco m) = 0"
    and "18 \<le> rat_of_nat (unat (reg16 s (addr_mang m))) * (87 / 1000)"
    and "\<not> bit (reg8 s (addr_status m)) 5"
  shows "map_option fst (detectMagnet m s) = Some 0
       \<and> (\<exists>s'. burnMaxAngleAndConfig m s = Some (1, s')
              \<and> trace s' = trace s @
                  [Tx [word_of_int (addr_mang m)], Rx 1,
                   Tx [word_of_int (addr_mang m) + 1], Rx 1,
                   Tx [word_of_int (addr_zmco m)], Rx 1,
                   Tx [word_of_int (addr_burn m), 0x40]])"
proof -
  have "map_option fst (detectMagnet m s) = Some 0"
    using assms(1,4) by (simp add: detectMagnet_def readOneByte_present reg8_def status_masks)
  moreover have "\<exists>s'. burnMaxAngleAndConfig m s = Some (1, s')
              \<and> trace s' = trace s @
                  [Tx [word_of_int (addr_mang m)], Rx 1,
                   Tx [word_of_int (addr_mang m) + 1], Rx 1,
                   Tx [word_of_int (addr_zmco m)], Rx 1,
                   Tx [word_of_int (addr_burn m), 0x40]]"
    using burnMaxAngleAndConfig_present [OF assms(1), of m] assms(2,3) by (auto simp: not_less)
  ultimately show ?thesis by simp
qed

text \<open>All registers 0 but the max angle: no magnet, and the burn command goes out.\<close>

theorem burnMaxAngleAndConfig_ignores_magnet_witness:
  "present (idle_bus (blank_regs(0x05 := 0x0F, 0x06 := 0xFF)))
   \<and> reg8 (idle_bus (blank_regs(0x05 := 0x0F, 0x06 := 0xFF))) (addr_zmco datasheet_map) = 0
   \<and> 18 \<le> rat_of_nat (unat (reg16 (idle_bus (blank_regs(0x05 := 0x0F, 0x06 := 0xFF)))
                                 (addr_mang datasheet_map))) * (87 / 1000)
   \<and> \<not> bit (reg8 (idle_bus (blank_regs(0x05 := 0x0F, 0x06 := 0xFF))) (addr_status datasheet_map)) 5
   \<and> (\<exists>s'. burnMaxAngleAndConfig datasheet_map (idle_bus (blank_regs(0x05 := 0x0F, 0x06 := 0xFF)))
             = Some (1, s')
          \<and> trace s' = [Tx [0x05], Rx 1, Tx [0x06], Rx 1, Tx [0x00], Rx 1, Tx [0xFF, 0x40]])"
proof -
  have p: "present (idle_bus r)" for r by (simp add: idle_bus_def blank_regs_def)
  have z: "reg8 (idle_bus (blank_regs(0x05 := 0x0F, 0x06 := 0xFF))) (addr_zmco datasheet_map) = 0"
    by (simp add: idle_bus_def blank_regs_def reg8_def datasheet_map_def)
  have a: "18 \<le> rat_of_nat (unat (reg16 (idle_bus (blank_regs(0x05 := 0x0F, 0x06 := 0xFF)))
                                 (addr_mang datasheet_map))) * (87 / 1000)"
    by (simp add: idle_bus_def blank_regs_def reg8_def reg16_def datasheet_map_def)
  have n: "\<not> bit (reg8 (idle_bus (blank_regs(0x05 := 0x0F, 0x06 := 0xFF))) (addr_status datasheet_map)) 5"
    by (simp add: idle_bus_def blank_regs_def reg8_def datasheet_map_def)
  show ?thesis
    using burnMaxAngleAndConfig_ignores_magnet [OF p z a n] p z a n
    by (simp add: idle_bus_def blank_regs_def datasheet_map_def)
qed

subsection \<open>Output mode\<close>

lemma below_8_cases:
  assumes "n < (8::nat)"
  obtains "n = 0" | "n = 1" | "n = 2" | "n = 3" | "n = 4" | "n = 5" | "n = 6" | "n = 7"
  using assms by linarith

lemma bit_byte_int:
  assumes "(k::int) = take_bit 8 k" and "\<not> n < 8"
  shows "\<not> bit k n"
proof -
  have "bit k n = bit (take_bit 8 k) n" using assms(1) by simp
  also have "\<dots> = (n < 8 \<and> bit k n)" by (simp only: bit_take_bit_iff)
  finally show ?thesis using assms(2) by simp
qed

lemma bit_CF: "bit (0xCF :: int) n \<longleftrightarrow> n < 8 \<and> n \<noteq> 4 \<and> n \<noteq> 5"
proof (cases "n < 8")
  case True
  then show ?thesis by (rule below_8_cases) simp_all
next
  case False
  then show ?thesis using bit_byte_int [of "0xCF" n] by simp
qed

lemma bit_20: "bit (0x20 :: int) n \<longleftrightarrow> n = 5"
proof (cases "n < 8")
  case True
  then show ?thesis by (rule below_8_cases) simp_all
next
  case False
  then show ?thesis using bit_byte_int [of "0x20" n] by auto
qed

lemma bit_10: "bit (0x10 :: int) n \<longleftrightarrow> n = 4"
proof (cases "n < 8")
  case True
  then show ?thesis by (rule below_8_cases) simp_all
next
  case False
  then show ?thesis using bit_byte_int [of "0x10" n] by auto
qed

lemma output_mode_bits:
  fixes L :: "8 word"
  shows "bit (if mode = (0 :: 8 word) then (L AND 0xCF) OR 0x20
              else if mode = 2 then (L AND 0xCF) OR 0x10 else L AND 0xCF) n
     \<longleftrightarrow> (if n = 5 then mode = 0 else if n = 4 then mode = 2 else bit L n)"
  by (auto simp: bit_and_iff bit_or_iff bit_CF bit_20 bit_10 dest: bit_imp_le_length)

text \<open>
  Claim C8. On a chip that answers, with \<open>L\<close> the low byte of the configuration
  register before the call, \<^verbatim>\<open>setOutPut\<close> reads that byte and writes back \<open>W\<close>, which
  is \<open>L AND 0xCF\<close> with \<open>0x20\<close> set for mode 0, \<open>0x10\<close> set for mode 2 and nothing
  set for any other mode. So bit 5 of \<open>W\<close> says whether the mode is 0, bit 4 whether it
  is 2, and every other bit is that of \<open>L\<close>. The one register written is the low byte
  (its address differs from that of the high byte). With \<open>L = 0x2F\<close> and mode 0 the
  byte written is \<open>0x2F\<close>.
\<close>

theorem setOutPut_bits:
  assumes "present s"
  shows "\<exists>s' W. setOutPut m mode s = Some s'
          \<and> W = (if mode = 0 then (reg8 s (addr_conf m + 1) AND 0xCF) OR 0x20
                  else if mode = 2 then (reg8 s (addr_conf m + 1) AND 0xCF) OR 0x10
                  else reg8 s (addr_conf m + 1) AND 0xCF)
          \<and> trace s' = trace s @
               [Tx [word_of_int (addr_conf m) + 1], Rx 1, Tx [word_of_int (addr_conf m) + 1, W]]
          \<and> writes_of (trace s') = writes_of (trace s) @ [(word_of_int (addr_conf m) + 1, W)]
          \<and> word_of_int (addr_conf m) + 1 \<noteq> (word_of_int (addr_conf m) :: 8 word)
          \<and> (\<forall>n. bit W n \<longleftrightarrow>
                    (if n = 5 then mode = 0 else if n = 4 then mode = 2
                     else bit (reg8 s (addr_conf m + 1)) n))
          \<and> (reg8 s (addr_conf m + 1) = 0x2F \<and> mode = 0 \<longrightarrow> W = 0x2F)"
proof -
  let ?L = "reg8 s (addr_conf m + 1)"
  let ?W = "if mode = 0 then (?L AND 0xCF) OR 0x20
            else if mode = 2 then (?L AND 0xCF) OR 0x10 else ?L AND 0xCF"
  let ?s' = "s\<lparr>regs := (regs s)(word_of_int (addr_conf m) + 1 := ?W),
               pointer := word_of_int (addr_conf m) + 2, txBuffer := [], rxBuffer := [],
               trace := trace s @ [Tx [word_of_int (addr_conf m) + 1], Rx 1,
                                   Tx [word_of_int (addr_conf m) + 1, ?W]]\<rparr>"
  have run: "setOutPut m mode s = Some ?s'"
    using assms
    by (simp add: setOutPut_def readOneByte_present writeOneByte_present reg8_def Let_def)
  have bits: "\<forall>n. bit ?W n \<longleftrightarrow>
      (if n = 5 then mode = 0 else if n = 4 then mode = 2 else bit ?L n)"
    using output_mode_bits [of mode ?L] by blast
  have ex: "?L = 0x2F \<and> mode = 0 \<longrightarrow> ?W = 0x2F" by simp
  show ?thesis
    apply (rule exI [of _ ?s'])
    apply (rule exI [of _ ?W])
    using run bits ex by (simp add: writes_of_append)
qed

text \<open>The scenario \<open>L = 0x2F\<close>, mode 0, on the data-sheet addresses.\<close>

theorem setOutPut_bits_witness:
  "present (idle_bus (blank_regs(0x08 := 0x2F)))
   \<and> (\<exists>s'. setOutPut datasheet_map 0 (idle_bus (blank_regs(0x08 := 0x2F))) = Some s'
          \<and> trace s' = [Tx [0x08], Rx 1, Tx [0x08, 0x2F]]
          \<and> writes_of (trace s') = [(0x08, 0x2F)])"
proof -
  have p: "present (idle_bus (blank_regs(0x08 := 0x2F)))" by (simp add: idle_bus_def blank_regs_def)
  have l: "reg8 (idle_bus (blank_regs(0x08 := 0x2F))) 0x08 = 0x2F"
    by (simp add: idle_bus_def blank_regs_def reg8_def)
  have t: "trace (idle_bus (blank_regs(0x08 := 0x2F))) = []" by (simp add: idle_bus_def blank_regs_def)
  have a: "addr_conf datasheet_map = 0x07" by (simp add: datasheet_map_def)
  show ?thesis
    using setOutPut_bits [OF p, of datasheet_map 0] p
    by (auto simp: l t a)
qed

subsection \<open>Setting a register pair\<close>

lemma set_pair_present:
  assumes "present s"
  shows "readTwoBytesSeparately a
           (delay 2 (writeOneByte (a + 1) (uint (lowByte w))
             (delay 2 (writeOneByte a (uint (highByte w)) s)))) =
         Some (word_of_int (push_bit 8 (uint (highByte w)) OR uint (lowByte w)),
               s\<lparr>regs := (regs s)(word_of_int a := highByte w, word_of_int a + 1 := lowByte w),
                 pointer := word_of_int a + 2, txBuffer := [], rxBuffer := [],
                 trace := trace s @ write_pair_events a w @ read_back_events a\<rparr>)"
  using assms
  by (simp add: readTwoBytesSeparately_present writeOneByte_present delay_def write_pair_events_def
      read_back_events_def)


lemma setMaxAngle_present:
  assumes "present s"
  shows "setMaxAngle m v s =
         Some (word_of_int (push_bit 8 (uint (highByte (value_or_raw_angle m v s)))
                            OR uint (lowByte (value_or_raw_angle m v s))),
               s\<lparr>regs := (regs s)(word_of_int (addr_mang m) := highByte (value_or_raw_angle m v s),
                                    word_of_int (addr_mang m) + 1 := lowByte (value_or_raw_angle m v s)),
                 pointer := word_of_int (addr_mang m) + 2, txBuffer := [], rxBuffer := [],
                 trace := trace s @ capture_events m v @ write_pair_events (addr_mang m) (value_or_raw_angle m v s)
                            @ read_back_events (addr_mang m)\<rparr>)"
proof (cases "v = - 1")
  case True
  then show ?thesis
    using assms
    by (simp add: setMaxAngle_def getRawAngle_def readTwoBytesTogether_present
        set_pair_present value_or_raw_angle_def capture_events_def reg16_def reg8_def)
next
  case False
  then show ?thesis
    using assms
    by (simp add: setMaxAngle_def set_pair_present value_or_raw_angle_def capture_events_def)
qed

lemma setStartPosition_present:
  assumes "present s"
  shows "setStartPosition m v s =
         Some (word_of_int (push_bit 8 (uint (highByte (value_or_raw_angle m v s)))
                            OR uint (lowByte (value_or_raw_angle m v s))),
               s\<lparr>regs := (regs s)(word_of_int (addr_zpos m) := highByte (value_or_raw_angle m v s),
                                    word_of_int (addr_zpos m) + 1 := lowByte (value_or_raw_angle m v s)),
                 pointer := word_of_int (addr_zpos m) + 2, txBuffer := [], rxBuffer := [],
                 trace := trace s @ capture_events m v @ write_pair_events (addr_zpos m) (value_or_raw_angle m v s)
                            @ read_back_events (addr_zpos m)\<rparr>)"
proof (cases "v = - 1")
  case True
  then show ?thesis
    using assms
    by (simp add: setStartPosition_def getRawAngle_def readTwoBytesTogether_present
        set_pair_present value_or_raw_angle_def capture_events_def reg16_def reg8_def)
next
  case False
  then show ?thesis
    using assms
    by (simp add: setStartPosition_def set_pair_present value_or_raw_angle_def capture_events_def)
qed

lemma setEndPosition_present:
  assumes "present s"
  shows "setEndPosition m v s =
         Some (word_of_int (push_bit 8 (uint (highByte (value_or_raw_angle m v s)))
                            OR uint (lowByte (value_or_raw_angle m v s))),
               s\<lparr>regs := (regs s)(word_of_int (addr_mpos m) := highByte (value_or_raw_angle m v s),
                                    word_of_int (addr_mpos m) + 1 := lowByte (value_or_raw_angle m v s)),
                 pointer := word_of_int (addr_mpos m) + 2, txBuffer := [], rxBuffer := [],
                 trace := trace s @ capture_events m v @ write_pair_events (addr_mpos m) (value_or_raw_angle m v s)
                            @ read_back_events (addr_mpos m)\<rparr>)"
proof (cases "v = - 1")
  case True
  then show ?thesis
    using assms
    by (simp add: setEndPosition_def getRawAngle_def readTwoBytesTogether_present
        set_pair_present value_or_raw_angle_def capture_events_def reg16_def reg8_def)
next
  case False
  then show ?thesis
    using assms
    by (simp add: setEndPosition_def set_pair_present value_or_raw_angle_def capture_events_def)
qed

lemma setConf_present:
  assumes "present s"
  shows "setConf m v s =
         s\<lparr>regs := (regs s)(word_of_int (addr_conf m) := highByte v,
                              word_of_int (addr_conf m) + 1 := lowByte v),
           pointer := word_of_int (addr_conf m) + 2, txBuffer := [],
           trace := trace s @ write_pair_events (addr_conf m) v\<rparr>"
  using assms
  by (simp add: setConf_def writeOneByte_present delay_def write_pair_events_def)

lemma reg16_after_set:
  "reg16 (s\<lparr>regs := (regs s)(word_of_int a := h, word_of_int a + 1 := l),
             pointer := p, txBuffer := tx, rxBuffer := rx, trace := tr\<rparr>) a
   = word_of_int (push_bit 8 (uint h) OR uint l)"
  by (simp add: reg16_def reg8_def)

lemma compose_bytes:
  "word_of_int (push_bit 8 (uint (highByte w)) OR uint (lowByte w)) = (w :: 16 word)"
  unfolding lowByte_take_bit highByte_def
  by (rule bit_word_eqI) (auto simp: bit_simps)

text \<open>
  Claim C5, amended. On a chip that answers, \<^verbatim>\<open>setMaxAngle\<close>, \<^verbatim>\<open>setStartPosition\<close>
  and \<^verbatim>\<open>setEndPosition\<close> write the high byte, pause, write the low byte, pause, then
  read the register pair back byte by byte and return the value the pair holds.
  \<^verbatim>\<open>setConf\<close> writes the high byte, pauses, writes the low byte and pauses; it reads
  nothing back and returns no value.
\<close>

theorem set_operations_write_then_read_back:
  assumes "present s"
  shows "(\<exists>s'. setMaxAngle m v s = Some (reg16 s' (addr_mang m), s')
            \<and> trace s' = trace s @ capture_events m v @ write_pair_events (addr_mang m) (value_or_raw_angle m v s)
                            @ read_back_events (addr_mang m))
       \<and> (\<exists>s'. setStartPosition m v s = Some (reg16 s' (addr_zpos m), s')
            \<and> trace s' = trace s @ capture_events m v @ write_pair_events (addr_zpos m) (value_or_raw_angle m v s)
                            @ read_back_events (addr_zpos m))
       \<and> (\<exists>s'. setEndPosition m v s = Some (reg16 s' (addr_mpos m), s')
            \<and> trace s' = trace s @ capture_events m v @ write_pair_events (addr_mpos m) (value_or_raw_angle m v s)
                            @ read_back_events (addr_mpos m))
       \<and> trace (setConf m v s) = trace s @ write_pair_events (addr_conf m) v"
  using assms
  by (simp add: setMaxAngle_present setStartPosition_present setEndPosition_present
      setConf_present reg16_after_set)

text \<open>The value \<open>0x0123\<close> on a chip with all registers 0.\<close>

theorem set_operations_write_then_read_back_witness:
  "present (idle_bus blank_regs)
   \<and> (\<exists>s'. setMaxAngle datasheet_map 0x0123 (idle_bus blank_regs)
             = Some (reg16 s' (addr_mang datasheet_map), s')
          \<and> trace s' = [Tx [0x05, 0x01], Delay 2, Tx [0x06, 0x23], Delay 2,
                         Tx [0x05], Rx 1, Tx [0x06], Rx 1])
   \<and> trace (setConf datasheet_map 0x0123 (idle_bus blank_regs))
       = [Tx [0x07, 0x01], Delay 2, Tx [0x08, 0x23], Delay 2]"
proof -
  have p: "present (idle_bus blank_regs)" by (simp add: idle_bus_def blank_regs_def)
  have h: "highByte 0x0123 = 0x01" and l: "lowByte 0x0123 = 0x23"
    by (simp_all add: highByte_def lowByte_def)
  show ?thesis
    using set_operations_write_then_read_back [OF p, of datasheet_map "0x0123"] p
    by (simp add: idle_bus_def blank_regs_def datasheet_map_def capture_events_def value_or_raw_angle_def write_pair_events_def
        read_back_events_def reg16_def reg8_def h l)
qed

text \<open>
  Claim C5 as stated includes \<^verbatim>\<open>setConf\<close> among the operations that read back. Its
  trace for the value \<open>0x1234\<close> ends with the second pause and holds no read.
\<close>

theorem setConf_no_read_back:
  "trace (setConf datasheet_map 0x1234 (idle_bus blank_regs))
     = [Tx [0x07, 0x12], Delay 2, Tx [0x08, 0x34], Delay 2]
   \<and> Rx 1 \<notin> set (trace (setConf datasheet_map 0x1234 (idle_bus blank_regs)))"
proof -
  have h: "highByte 0x1234 = 0x12" and l: "lowByte 0x1234 = 0x34"
    by (simp_all add: highByte_def lowByte_def)
  show ?thesis
    by (simp add: setConf_def writeOneByte_def sw_beginTransmission_def sw_write_def
        sw_endTransmission_def delay_def idle_bus_def blank_regs_def datasheet_map_def h l)
qed

lemma writes_of_pair:
  "writes_of (capture_events m v) = []"
  "writes_of (write_pair_events a w) = [(word_of_int a, highByte w), (word_of_int a + 1, lowByte w)]"
  "writes_of (read_back_events a) = []"
  by (simp_all add: capture_events_def write_pair_events_def read_back_events_def)

text \<open>
  Claim C9, amended. On a chip that answers, for every 16-bit argument \<open>v\<close>, each of
  \<^verbatim>\<open>setMaxAngle\<close>, \<^verbatim>\<open>setStartPosition\<close> and \<^verbatim>\<open>setEndPosition\<close> writes to its register
  pair the high and the low byte of \<open>w\<close>, and these are its only register writes:
  \<open>w\<close> is \<open>v\<close> unless \<open>v\<close> is \<open>0xFFFF\<close> (what the comparison with \<open>-1\<close> tests),
  and is the current raw angle when it is. The two bytes make up \<open>w\<close> again. Every
  12-bit \<open>v\<close> is written as it is. The value \<open>0xFFFF\<close> is written exactly when the
  argument is \<open>0xFFFF\<close> and the raw-angle pair itself reads \<open>0xFFFF\<close>, the read being
  taken unmasked; so it is written for no argument while the raw angle is a 12-bit value.
\<close>

theorem setters_write_value_or_raw_angle:
  assumes "present s"
  shows "let w = (if v = 0xFFFF then reg16 s (addr_raw_angle m) else v) in
      (\<exists>r s'. setMaxAngle m v s = Some (r, s')
          \<and> writes_of (trace s') = writes_of (trace s) @
               [(word_of_int (addr_mang m), highByte w),
                (word_of_int (addr_mang m) + 1, lowByte w)])
    \<and> (\<exists>r s'. setStartPosition m v s = Some (r, s')
          \<and> writes_of (trace s') = writes_of (trace s) @
               [(word_of_int (addr_zpos m), highByte w),
                (word_of_int (addr_zpos m) + 1, lowByte w)])
    \<and> (\<exists>r s'. setEndPosition m v s = Some (r, s')
          \<and> writes_of (trace s') = writes_of (trace s) @
               [(word_of_int (addr_mpos m), highByte w),
                (word_of_int (addr_mpos m) + 1, lowByte w)])
    \<and> word_of_int (push_bit 8 (uint (highByte w)) OR uint (lowByte w)) = w
    \<and> (v \<le> 0x0FFF \<longrightarrow> w = v)
    \<and> (w = 0xFFFF \<longleftrightarrow> v = 0xFFFF \<and> reg16 s (addr_raw_angle m) = 0xFFFF)
    \<and> (reg16 s (addr_raw_angle m) \<le> 0x0FFF \<longrightarrow> w \<noteq> 0xFFFF)"
proof -
  have c: "value_or_raw_angle m v s = (if v = 0xFFFF then reg16 s (addr_raw_angle m) else v)"
    by (simp add: value_or_raw_angle_def)
  have small: "v \<le> 0x0FFF \<Longrightarrow> v \<noteq> 0xFFFF"
    by (auto simp: word_le_nat_alt)
  have raw: "reg16 s (addr_raw_angle m) \<le> 0x0FFF \<Longrightarrow> reg16 s (addr_raw_angle m) \<noteq> 0xFFFF"
    by (auto simp: word_le_nat_alt)
  show ?thesis
    unfolding Let_def c [symmetric]
    using assms small raw
    by (simp add: setMaxAngle_present setStartPosition_present setEndPosition_present
        writes_of_append writes_of_pair compose_bytes c)
qed

text \<open>The raw angle \<open>0x0A3C\<close>: captured for the sentinel, ignored for \<open>0x0123\<close>.\<close>

theorem setters_write_value_or_raw_angle_witness:
  "present (idle_bus (blank_regs(0x0C := 0x0A, 0x0D := 0x3C)))
   \<and> (\<exists>r s'. setMaxAngle datasheet_map 0xFFFF (idle_bus (blank_regs(0x0C := 0x0A, 0x0D := 0x3C)))
               = Some (r, s')
          \<and> writes_of (trace s') = [(0x05, 0x0A), (0x06, 0x3C)])
   \<and> (\<exists>r s'. setMaxAngle datasheet_map 0x0123 (idle_bus (blank_regs(0x0C := 0x0A, 0x0D := 0x3C)))
               = Some (r, s')
          \<and> writes_of (trace s') = [(0x05, 0x01), (0x06, 0x23)])"
proof -
  have p: "present (idle_bus (blank_regs(0x0C := 0x0A, 0x0D := 0x3C)))"
    by (simp add: idle_bus_def blank_regs_def)
  have r: "reg16 (idle_bus (blank_regs(0x0C := 0x0A, 0x0D := 0x3C))) (addr_raw_angle datasheet_map)
            = 0x0A3C"
    by (simp add: idle_bus_def blank_regs_def datasheet_map_def reg16_def reg8_def)
  have b: "highByte 0x0A3C = 0x0A" "lowByte 0x0A3C = 0x3C"
    "highByte 0x0123 = 0x01" "lowByte 0x0123 = 0x23"
    by (simp_all add: highByte_def lowByte_def)
  have t: "trace (idle_bus (blank_regs(0x0C := 0x0A, 0x0D := 0x3C))) = []"
    by (simp add: idle_bus_def blank_regs_def)
  have a: "addr_mang datasheet_map = 0x05" by (simp add: datasheet_map_def)
  show ?thesis
    using setters_write_value_or_raw_angle [OF p, of "0xFFFF" datasheet_map]
      setters_write_value_or_raw_angle [OF p, of "0x0123" datasheet_map]
    by (simp add: Let_def p r b t a)
qed

text \<open>
  Claim C9 as stated says that \<open>0xFFFF\<close> can never be written. With \<open>0xFF\<close> in both
  registers of the raw-angle pair, \<^verbatim>\<open>setMaxAngle\<close> called with the sentinel captures
  \<open>0xFFFF\<close> and writes \<open>0xFF\<close> to both registers of the max-angle pair.
\<close>

theorem setMaxAngle_writes_FFFF:
  "map_option (writes_of \<circ> trace \<circ> snd)
     (setMaxAngle datasheet_map 0xFFFF (idle_bus (blank_regs(0x0C := 0xFF, 0x0D := 0xFF))))
   = Some [(0x05, 0xFF), (0x06, 0xFF)]"
proof -
  have p: "present (idle_bus (blank_regs(0x0C := 0xFF, 0x0D := 0xFF)))"
    by (simp add: idle_bus_def)
  have r: "reg16 (idle_bus (blank_regs(0x0C := 0xFF, 0x0D := 0xFF))) 0x0C = 0xFFFF"
    by (simp add: idle_bus_def reg16_def reg8_def)
  have b: "highByte 0xFFFF = 0xFF" "lowByte 0xFFFF = 0xFF"
    by (simp_all add: highByte_def lowByte_def)
  have t: "trace (idle_bus (blank_regs(0x0C := 0xFF, 0x0D := 0xFF))) = []"
    by (simp add: idle_bus_def)
  show ?thesis
    by (simp add: setMaxAngle_present [OF p] value_or_raw_angle_def datasheet_map_def
        writes_of_append writes_of_pair r b t)
qed

end
